theory Spec2Isabelle
  imports Complex_Main "HOL-Library.Sublist" "HOL-Library.AList"
begin

section \<open>Conventions of the embedding\<close>

text \<open>
  The strategy engine is Python. Its floats are modelled as exact reals: every
  claim settled below is about the formulas the code evaluates, none about the
  rounding error of IEEE arithmetic. Exceptions are values of the type
  \<open>exn\<close>; a function that may raise returns \<open>exn + 'a\<close> with \<open>Inl\<close> for
  the raise. Values that numpy computes where Python would raise (division by
  zero on \<open>float64\<close>) get a type of their own, \<open>npfloat\<close>.
\<close>

datatype exn =
    KeyError string
  | ValueError string
  | TypeError string
  | ZeroDivisionError string
  | AttributeError string
  | TimeoutError
  | RuntimeError string
  | IndexError string
  | OverflowError string

text \<open>\<open>str(e)\<close>: a \<open>KeyError\<close> prints the repr of its key, the others their message.\<close>

fun str_exn :: "exn \<Rightarrow> string" where
  "str_exn (KeyError k) = CHR 0x27 # k @ [CHR 0x27]"
| "str_exn (ValueError m) = m"
| "str_exn (TypeError m) = m"
| "str_exn (ZeroDivisionError m) = m"
| "str_exn (AttributeError m) = m"
| "str_exn TimeoutError = []"
| "str_exn (RuntimeError m) = m"
| "str_exn (IndexError m) = m"
| "str_exn (OverflowError m) = m"

section \<open>ArbitrageDetector.calculate_price_difference (detector.py, 63-86)\<close>

text \<open>\<open>np.rint\<close>: round to the nearest integer, a tie to the even one.\<close>

definition rint :: "real \<Rightarrow> int" where
  "rint x =
     (let f = \<lfloor>x\<rfloor>; r = x - of_int f
      in if r < 1 / 2 then f
         else if 1 / 2 < r then f + 1
         else if even f then f else f + 1)"

text \<open>\<open>np.round(x, decimals=d)\<close> scales by \<open>10 ** d\<close>, rounds with \<open>rint\<close> and scales back.\<close>

definition np_round :: "real \<Rightarrow> nat \<Rightarrow> real" where
  "np_round x d = of_int (rint (x * 10 ^ d)) / 10 ^ d"

definition calculate_price_difference :: "real \<Rightarrow> real \<Rightarrow> exn + real" where
  "calculate_price_difference price_a price_b =
     (if price_a \<le> 0 \<or> price_b \<le> 0 then Inl (ValueError ''Invalid price values'')
      else
        let diff = \<bar>price_b - price_a\<bar>;
            avg_price = (price_a + price_b) / 2;
            bps_diff = (diff / avg_price) * 10000
        in Inr (np_round bps_diff 2))"

text \<open>A returned value within \<open>tol\<close> of \<open>target\<close>; a raise is never within tolerance.\<close>

fun within_tolerance :: "exn + real \<Rightarrow> real \<Rightarrow> real \<Rightarrow> bool" where
  "within_tolerance (Inl e) target tol = False"
| "within_tolerance (Inr d) target tol = (\<bar>d - target\<bar> \<le> tol)"

section \<open>numpy floats\<close>

text \<open>
  A \<open>float64\<close> division by zero does not raise: numpy returns an infinity or
  NaN (and warns). Only what the modelled code can produce is defined.
\<close>

datatype npfloat = Fin real | PosInf | NegInf | NaN

definition np_div :: "real \<Rightarrow> real \<Rightarrow> npfloat" where
  "np_div x y =
     (if y \<noteq> 0 then Fin (x / y)
      else if 0 < x then PosInf
      else if x < 0 then NegInf
      else NaN)"

text \<open>Multiplication of a numpy float by a finite, strictly positive constant.\<close>

fun np_scale :: "real \<Rightarrow> npfloat \<Rightarrow> npfloat" where
  "np_scale c (Fin x) = Fin (c * x)"
| "np_scale c PosInf = PosInf"
| "np_scale c NegInf = NegInf"
| "np_scale c NaN = NaN"

fun cumsum_from :: "real \<Rightarrow> real list \<Rightarrow> real list" where
  "cumsum_from acc [] = []"
| "cumsum_from acc (x # xs) = (acc + x) # cumsum_from (acc + x) xs"

definition np_cumsum :: "real list \<Rightarrow> real list" where
  "np_cumsum xs = cumsum_from 0 xs"

section \<open>ArbitrageExecutor._calculate_slippage (executor.py, 289-328)\<close>

text \<open>
  The market data frame is a list of rows; an order book side is an N x 2 numpy
  array, a list of (price, size) levels. \<open>execution_params\<close> is the opportunity
  dictionary: the detector builds it without a \<open>size\<close> entry, and the code reads
  the size with \<open>get('size', 0)\<close>.
\<close>

record orderbook =
  bids :: "(real \<times> real) list"
  asks :: "(real \<times> real) list"

record market_row =
  row_dex :: string
  row_pair :: string
  row_price :: real
  row_orderbook :: orderbook

record execution_params =
  ep_pair :: string
  ep_dex_buy :: string
  ep_dex_sell :: string
  ep_size :: "real option"

text \<open>\<open>self.market_data[(dex == d) & (pair == p)]\<close>\<close>

definition select_rows :: "market_row list \<Rightarrow> string \<Rightarrow> string \<Rightarrow> market_row list" where
  "select_rows market_data d p = filter (\<lambda>r. row_dex r = d \<and> row_pair r = p) market_data"

text \<open>
  The body after the two guards. On an empty \<open>asks\<close> array the indexing raises
  IndexError, which the \<open>except\<close> clause turns into infinity.
\<close>

definition slippage_bps :: "(real \<times> real) list \<Rightarrow> real \<Rightarrow> npfloat" where
  "slippage_bps ask_levels trade_size =
     (case ask_levels of
        [] \<Rightarrow> PosInf
      | level # _ \<Rightarrow>
          let cumulative_volume = np_cumsum (map snd ask_levels);
              price_levels = map fst ask_levels;
              execution_price =
                sum_list (map (\<lambda>(p, v). p * min trade_size v) (zip price_levels cumulative_volume))
                  / trade_size;
              base_price = fst level
          in np_scale 10000 (np_div (execution_price - base_price) base_price))"

definition calculate_slippage :: "market_row list \<Rightarrow> execution_params \<Rightarrow> npfloat" where
  "calculate_slippage market_data params =
     (case select_rows market_data (ep_dex_buy params) (ep_pair params) of
        [] \<Rightarrow> PosInf
      | row # _ \<Rightarrow>
          let trade_size = (case ep_size params of None \<Rightarrow> 0 | Some s \<Rightarrow> s)
          in if trade_size \<le> 0 then Fin 0
             else slippage_bps (asks (row_orderbook row)) trade_size)"

text \<open>
  The volume-weighted average execution price in the words of the
  specification: the trade consumes the levels in order, each up to its size,
  and the prices are averaged with the consumed volumes as weights.
\<close>

fun consumed :: "real \<Rightarrow> (real \<times> real) list \<Rightarrow> (real \<times> real) list" where
  "consumed remaining [] = []"
| "consumed remaining ((p, v) # levels) =
     (p, min v (max 0 remaining)) # consumed (remaining - v) levels"

definition spec_execution_price :: "(real \<times> real) list \<Rightarrow> real \<Rightarrow> real" where
  "spec_execution_price levels trade_size =
     sum_list (map (\<lambda>(p, filled). p * filled) (consumed trade_size levels))
       / sum_list (map snd (consumed trade_size levels))"

section \<open>GridStrategyManager._initialize_grid_levels (grid/manager.py, 322-340)\<close>

datatype side = Buy | Sell

datatype level_status = Pending | Filled | Cancelled

record grid_level =
  gl_price :: real
  gl_size :: real
  gl_side :: side
  gl_status :: level_status

text \<open>
  The \<open>grid_params\<close> dictionary as the method reads it: \<open>grid_levels\<close> is a Python
  \<open>int\<close> (\<open>range\<close> accepts nothing else).
\<close>

record grid_params =
  gp_grid_levels :: int
  gp_grid_spacing :: real
  gp_position_size :: real

text \<open>Python's \<open>range(a, b)\<close> over the integers.\<close>

definition py_range :: "int \<Rightarrow> int \<Rightarrow> int list" where
  "py_range a b = [a .. b - 1]"

text \<open>
  \<open>_initialize_grid_levels\<close> builds the list that \<open>setup_grid\<close> (line 122) and
  \<open>rebalance_grid\<close> (line 285) store under \<open>'levels'\<close>. In \<open>-num_levels // 2\<close> the
  unary minus binds tighter than the floor division; \<open>div\<close> on \<open>int\<close> is floor
  division too.
\<close>

definition initialize_grid_levels :: "grid_params \<Rightarrow> real \<Rightarrow> grid_level list" where
  "initialize_grid_levels params current_price =
     (let spacing = gp_grid_spacing params;
          num_levels = gp_grid_levels params
      in map (\<lambda>i. \<lparr> gl_price = current_price * (1 + of_int i * spacing),
                     gl_size = gp_position_size params,
                     gl_side = (if i < 0 then Buy else Sell),
                     gl_status = Pending \<rparr>)
           (py_range ((- num_levels) div 2) (num_levels div 2 + 1)))"

section \<open>ArbitrageExecutor.execute_opportunity (executor.py, 62-155 and 330-345)\<close>

text \<open>
  The counters start at 0 in the constructor and are only ever incremented, so
  they are natural numbers.
\<close>

record execution_stats =
  total_executions :: nat
  successful_executions :: nat
  failed_executions :: nat
  average_execution_time :: real
  total_profit_usdc :: real
  mev_optimization_savings :: real

record path_step =
  step_dex :: string
  step_size :: real
  step_price :: real
  step_type :: side

record trade_params =
  tp_pair :: "string option"
  tp_size :: "real option"
  tp_price :: "real option"
  tp_dex :: "string option"

record trade_result =
  tr_success :: bool
  tr_realized_profit :: real
  tr_mev_savings :: real

text \<open>The entries of \<open>execution_result['errors']\<close>; the formatted text is left out.\<close>

datatype execution_error =
    ValidationFailed
  | PathCalculationFailed
  | TradeValidationFailed
  | ExecutionTimeout nat
  | ExecutionError nat exn

record execution_result =
  er_success :: bool
  er_trades :: "trade_result list"
  er_profit_usdc :: real
  er_execution_time_ms :: real
  er_mev_savings :: real
  er_errors :: "execution_error list"

text \<open>
  One pass of the retry loop awaits \<open>asyncio.wait_for(asyncio.gather(...))\<close>: the
  trades complete, the timeout fires, or a trade raises.
\<close>

datatype attempt_outcome = Completed "trade_result list" | TimedOut | Raised exn

text \<open>
  What \<open>execute_opportunity\<close> obtains from the calls it makes: the verdict of
  \<open>self.validate_execution\<close>, the path of \<open>self.calculate_execution_path\<close>, the
  verdict of \<open>self.base_strategy.validate_trade\<close> for a leg, the outcome of the
  submission in each attempt, and the elapsed time read from the clock.
\<close>

record executor_env =
  env_validate_execution :: "execution_params \<Rightarrow> bool"
  env_calculate_execution_path :: "execution_params \<Rightarrow> path_step list"
  env_base_validate_trade :: "trade_params \<Rightarrow> bool"
  env_submit :: "trade_params list \<Rightarrow> nat \<Rightarrow> attempt_outcome"
  env_execution_time :: real

definition MAX_EXECUTION_ATTEMPTS :: nat where "MAX_EXECUTION_ATTEMPTS = 3"

definition update_execution_stats ::
  "execution_result \<Rightarrow> real \<Rightarrow> execution_stats \<Rightarrow> execution_stats" where
  "update_execution_stats execution_result execution_time stats =
     (let stats1 = stats \<lparr> total_executions := total_executions stats + 1 \<rparr>;
          stats2 =
            (if er_success execution_result
             then stats1 \<lparr> successful_executions := successful_executions stats1 + 1,
                           total_profit_usdc :=
                             total_profit_usdc stats1 + er_profit_usdc execution_result,
                           mev_optimization_savings :=
                             mev_optimization_savings stats1 + er_mev_savings execution_result \<rparr>
             else stats1 \<lparr> failed_executions := failed_executions stats1 + 1 \<rparr>)
      in stats2 \<lparr> average_execution_time :=
                    (average_execution_time stats2 * (real (total_executions stats2) - 1)
                       + execution_time) / real (total_executions stats2) \<rparr>)"

text \<open>
  The loop that prepares the transaction bundle: \<open>None\<close> when a leg fails the
  risk validation, which makes \<open>execute_opportunity\<close> return at once.
\<close>

fun prepare_bundle ::
  "(trade_params \<Rightarrow> bool) \<Rightarrow> string \<Rightarrow> path_step list \<Rightarrow> trade_params list option" where
  "prepare_bundle validate pair [] = Some []"
| "prepare_bundle validate pair (step # steps) =
     (let trade = \<lparr> tp_pair = Some pair, tp_size = Some (step_size step),
                     tp_price = Some (step_price step), tp_dex = Some (step_dex step) \<rparr>
      in if \<not> validate trade then None
         else (case prepare_bundle validate pair steps of
                 None \<Rightarrow> None
               | Some bundle \<Rightarrow> Some (trade # bundle)))"

text \<open>
  The retry loop over the attempt numbers still to run. A completed attempt
  whose trades all succeeded breaks out of the loop; a completed attempt with a
  failed trade goes on to the next attempt without recording an error.
\<close>

fun submit_attempts ::
  "(nat \<Rightarrow> attempt_outcome) \<Rightarrow> nat list \<Rightarrow> execution_result \<Rightarrow> execution_result" where
  "submit_attempts outcome [] result = result"
| "submit_attempts outcome (attempt # rest) result =
     (case outcome attempt of
        Completed trade_results \<Rightarrow>
          if list_all tr_success trade_results
          then result \<lparr> er_success := True,
                        er_trades := trade_results,
                        er_profit_usdc := sum_list (map tr_realized_profit trade_results),
                        er_mev_savings := sum_list (map tr_mev_savings trade_results) \<rparr>
          else submit_attempts outcome rest result
      | TimedOut \<Rightarrow>
          submit_attempts outcome rest
            (result \<lparr> er_errors := er_errors result @ [ExecutionTimeout (attempt + 1)] \<rparr>)
      | Raised e \<Rightarrow>
          submit_attempts outcome rest
            (result \<lparr> er_errors := er_errors result @ [ExecutionError (attempt + 1) e] \<rparr>))"

definition initial_execution_result :: execution_result where
  "initial_execution_result =
     \<lparr> er_success = False, er_trades = [], er_profit_usdc = 0, er_execution_time_ms = 0,
       er_mev_savings = 0, er_errors = [] \<rparr>"

definition execute_opportunity ::
  "executor_env \<Rightarrow> execution_params \<Rightarrow> execution_stats \<Rightarrow> execution_result \<times> execution_stats" where
  "execute_opportunity env opportunity stats =
     (let execution_result = initial_execution_result
      in if \<not> env_validate_execution env opportunity
         then (execution_result \<lparr> er_errors := [ValidationFailed] \<rparr>, stats)
         else
           (case env_calculate_execution_path env opportunity of
              [] \<Rightarrow> (execution_result \<lparr> er_errors := [PathCalculationFailed] \<rparr>, stats)
            | execution_path \<Rightarrow>
                (case prepare_bundle (env_base_validate_trade env) (ep_pair opportunity)
                        execution_path of
                   None \<Rightarrow> (execution_result \<lparr> er_errors := [TradeValidationFailed] \<rparr>, stats)
                 | Some transaction_bundle \<Rightarrow>
                     let result = submit_attempts (env_submit env transaction_bundle)
                                    [0 ..< MAX_EXECUTION_ATTEMPTS] execution_result
                     in (result,
                         update_execution_stats result (env_execution_time env) stats))))"

text \<open>
  The statistics are updated exactly once between \<open>stats\<close> and \<open>stats'\<close>: the
  total grows by one and so does exactly one of the two outcome counters.
\<close>

definition updated_exactly_once :: "execution_stats \<Rightarrow> execution_stats \<Rightarrow> bool" where
  "updated_exactly_once stats stats' =
     (total_executions stats' = total_executions stats + 1
      \<and> ((successful_executions stats' = successful_executions stats + 1
            \<and> failed_executions stats' = failed_executions stats)
         \<or> (successful_executions stats' = successful_executions stats
            \<and> failed_executions stats' = failed_executions stats + 1)))"

section \<open>Python objects\<close>

text \<open>
  Dictionaries are objects: a variable holds a reference, and two references to
  one dictionary see each other's updates. The store maps addresses to
  dictionaries; a dictionary is an association list in insertion order, and
  \<open>AList.update\<close> is the assignment \<open>d[k] = v\<close> (an existing key keeps its place, a
  new key goes to the end).
\<close>

type_synonym addr = nat

datatype pyval = Num real | Ref addr | Str string

type_synonym pydict = "(string \<times> pyval) list"

type_synonym store = "(addr \<times> pydict) list"

definition and_then :: "exn + 'a \<Rightarrow> ('a \<Rightarrow> exn + 'b) \<Rightarrow> exn + 'b" where
  "and_then r f = (case r of Inl e \<Rightarrow> Inl e | Inr x \<Rightarrow> f x)"

text \<open>\<open>d[k]\<close>\<close>

definition getitem :: "pydict \<Rightarrow> string \<Rightarrow> exn + pyval" where
  "getitem d k = (case map_of d k of None \<Rightarrow> Inl (KeyError k) | Some v \<Rightarrow> Inr v)"

text \<open>
  The dictionary behind a value; subscripting a number or a string with a key
  raises TypeError. A reference to no object does not occur in Python and is
  an error of the model.
\<close>

definition deref :: "store \<Rightarrow> pyval \<Rightarrow> exn + (addr \<times> pydict)" where
  "deref st v =
     (case v of
        Ref a \<Rightarrow> (case map_of st a of
                    None \<Rightarrow> Inl (RuntimeError ''dangling reference'')
                  | Some d \<Rightarrow> Inr (a, d))
      | Num x \<Rightarrow> Inl (TypeError ''float object is not subscriptable'')
      | Str x \<Rightarrow> Inl (TypeError ''string indices must be integers''))"

definition fresh_addr :: "store \<Rightarrow> addr" where
  "fresh_addr st = Suc (fold max (map fst st) 0)"

text \<open>A new object with the given entries: a dictionary display or \<open>dict.copy()\<close>.\<close>

definition alloc :: "pydict \<Rightarrow> store \<Rightarrow> addr \<times> store" where
  "alloc d st = (fresh_addr st, st @ [(fresh_addr st, d)])"

text \<open>\<open>d[k] = v\<close> on the dictionary at address \<open>a\<close>.\<close>

definition setitem :: "addr \<Rightarrow> string \<Rightarrow> pyval \<Rightarrow> store \<Rightarrow> store" where
  "setitem a k v st =
     (case map_of st a of
        None \<Rightarrow> st
      | Some d \<Rightarrow> AList.update a (AList.update k v d) st)"

section \<open>RiskCalculator (risk/calculator.py)\<close>

type_synonym var_metrics = "(string \<times> real) list"

record risk_calculator =
  rc_lookback_period :: nat
  rc_risk_limits :: "(string \<times> real) list"
  rc_correlation_matrix :: "real list list"

definition wrap_error :: "string \<Rightarrow> exn + 'a \<Rightarrow> exn + 'a" where
  "wrap_error label r = (case r of Inl e \<Rightarrow> Inl (ValueError (label @ str_exn e)) | Inr x \<Rightarrow> Inr x)"

subsection \<open>RiskCalculator.calculate_value_at_risk (67-122)\<close>

text \<open>
  A DataFrame of returns as the method reads it: the number of rows left by
  \<open>dropna()\<close>; \<open>returns.std()\<close> and \<open>returns.rolling(20).std().mean()\<close>, each a
  Series with one entry per column; and the value numpy computes for a VaR type,
  a volatility adjustment and a horizon (percentile, normal quantile or
  simulation, times the square root of the horizon where the code has it).
  \<open>calculate_portfolio_risk\<close> passes a DataFrame: it has taken \<open>.corr()\<close> of the
  same frame before.
\<close>

record returns_frame =
  rf_length :: nat
  rf_std :: "real list"
  rf_rolling_std_mean :: "real list"
  rf_var :: "string \<Rightarrow> npfloat list \<Rightarrow> nat \<Rightarrow> real"

text \<open>
  pandas refuses the truth value of a Series: \<open>bool(s)\<close> raises ValueError for a
  Series of any length, also of length one.
\<close>

definition series_truth_value :: "bool list \<Rightarrow> exn + bool" where
  "series_truth_value s =
     Inl (ValueError
       ''The truth value of a Series is ambiguous. Use a.empty, a.bool(), a.item(), a.any() or a.all().'')"

text \<open>
  Line 91 evaluates \<open>historical_vol != 0\<close>, a Series of booleans, as the
  condition of a conditional expression. Every exception of the body is raised
  again as ValueError (lines 121-122).
\<close>

definition calculate_value_at_risk ::
  "risk_calculator \<Rightarrow> returns_frame \<Rightarrow> string \<Rightarrow> exn + var_metrics" where
  "calculate_value_at_risk calc returns var_type =
     wrap_error ''Error calculating VaR: ''
       (if rf_length returns < rc_lookback_period calc
        then Inl (ValueError ''Insufficient historical data for VaR calculation'')
        else
          let current_vol = rf_std returns;
              historical_vol = rf_rolling_std_mean returns
          in and_then (series_truth_value (map (\<lambda>h. h \<noteq> 0) historical_vol)) (\<lambda>nonzero.
               let vol_adjustment =
                     (if nonzero
                      then map (\<lambda>(c, h). np_div c h) (zip current_vol historical_vol)
                      else [Fin 1])
               in Inr [(''1d'', \<bar>rf_var returns var_type vol_adjustment 1\<bar>),
                       (''5d'', \<bar>rf_var returns var_type vol_adjustment 5\<bar>),
                       (''10d'', \<bar>rf_var returns var_type vol_adjustment 10\<bar>)]))"

subsection \<open>RiskCalculator.calculate_portfolio_risk (182-239)\<close>

text \<open>
  What pandas computes from the \<open>market_data\<close> frame, none of it depending on the
  portfolio: the correlation matrix of the returns
  (\<open>market_data.pct_change().dropna()\<close>, then \<open>.corr().values\<close>, a two-dimensional
  array; \<open>Inl e\<close> if one of these raises \<open>e\<close>), the frame of the returns, the frame
  of the returns scaled by a shock factor, and the Sharpe ratio and drawdown
  series.
\<close>

record market_stats =
  ms_correlation :: "exn + real list list"
  ms_returns :: returns_frame
  ms_shocked_returns :: "real \<Rightarrow> returns_frame"
  ms_sharpe_ratio :: "real list"
  ms_max_drawdown :: "real list"

record portfolio_risk =
  pr_var_metrics :: var_metrics
  pr_correlation_matrix :: "real list list"
  pr_concentration :: real
  pr_stress_test_results :: "(string \<times> var_metrics) list"
  pr_sharpe_ratio :: "real list"
  pr_max_drawdown :: "real list"
  pr_diversification_score :: real

text \<open>\<open>pos['value']\<close> for every \<open>pos\<close> in \<open>positions.values()\<close>, as Python numbers.\<close>

fun position_values :: "store \<Rightarrow> pyval list \<Rightarrow> exn + real list" where
  "position_values st [] = Inr []"
| "position_values st (pos # rest) =
     and_then (deref st pos) (\<lambda>(a, d).
     and_then (getitem d ''value'') (\<lambda>v.
       case v of
         Num x \<Rightarrow> and_then (position_values st rest) (\<lambda>xs. Inr (x # xs))
       | Ref a \<Rightarrow> Inl (TypeError ''unsupported operand type(s)'')
       | Str x \<Rightarrow> Inl (TypeError ''unsupported operand type(s)'')))"

text \<open>\<open>portfolio_state['positions']\<close>: the address of the positions dictionary and its entries.\<close>

definition positions_of :: "store \<Rightarrow> addr \<Rightarrow> exn + (addr \<times> pydict)" where
  "positions_of st portfolio_state =
     and_then (deref st (Ref portfolio_state)) (\<lambda>(a, state).
     and_then (getitem state ''positions'') (\<lambda>p. deref st p))"

text \<open>
  Line 206: the maximum of \<open>value / portfolio_value\<close>. \<open>max\<close> of no element raises
  ValueError, and the first division by a zero total raises ZeroDivisionError.
\<close>

definition concentration_of :: "real list \<Rightarrow> real \<Rightarrow> exn + real" where
  "concentration_of values portfolio_value =
     (case values of
        [] \<Rightarrow> Inl (ValueError ''max() arg is an empty sequence'')
      | v # vs \<Rightarrow>
          if portfolio_value = 0 then Inl (ZeroDivisionError ''division by zero'')
          else Inr (fold max (map (\<lambda>x. x / portfolio_value) vs) (v / portfolio_value)))"

text \<open>
  The stress loop: for every scenario, in order, the VaR of the returns scaled
  by \<open>params.get('shock_factor', 1.0)\<close>.
\<close>

fun stress_tests ::
  "risk_calculator \<Rightarrow> market_stats \<Rightarrow> (string \<times> (string \<times> real) list) list
     \<Rightarrow> (string \<times> var_metrics) list \<Rightarrow> exn + (string \<times> var_metrics) list" where
  "stress_tests calc market_data [] stress_results = Inr stress_results"
| "stress_tests calc market_data ((scenario, params) # rest) stress_results =
     and_then
       (calculate_value_at_risk calc
          (ms_shocked_returns market_data
             (case map_of params ''shock_factor'' of None \<Rightarrow> 1 | Some f \<Rightarrow> f))
          ''historical'')
       (\<lambda>stress_var.
          stress_tests calc market_data rest (AList.update scenario stress_var stress_results))"

text \<open>
  \<open>calculate_portfolio_risk\<close>: the \<open>try\<close> block after the assignment to
  \<open>self.correlation_matrix\<close>, which needs the positions and the correlation first.
\<close>

definition portfolio_risk_metrics ::
  "risk_calculator \<Rightarrow> market_stats \<Rightarrow> (string \<times> (string \<times> real) list) list \<Rightarrow> real list
     \<Rightarrow> real list list \<Rightarrow> exn + portfolio_risk" where
  "portfolio_risk_metrics calc market_data stress_scenarios values correlation =
     and_then (concentration_of values (sum_list values)) (\<lambda>concentration.
     and_then (stress_tests calc market_data stress_scenarios []) (\<lambda>stress_results.
     and_then (calculate_value_at_risk calc (ms_returns market_data) ''historical'') (\<lambda>var.
       Inr \<lparr> pr_var_metrics = var,
             pr_correlation_matrix = correlation,
             pr_concentration = concentration,
             pr_stress_test_results = stress_results,
             pr_sharpe_ratio = ms_sharpe_ratio market_data,
             pr_max_drawdown = ms_max_drawdown market_data,
             pr_diversification_score = 1 - concentration \<rparr>)))"

text \<open>
  The method returns the metrics or raises ValueError, and leaves the calculator
  with the correlation matrix it has stored by then.
\<close>

definition calculate_portfolio_risk ::
  "risk_calculator \<Rightarrow> store \<Rightarrow> addr \<Rightarrow> market_stats \<Rightarrow> (string \<times> (string \<times> real) list) list
     \<Rightarrow> (exn + portfolio_risk) \<times> risk_calculator" where
  "calculate_portfolio_risk calc st portfolio_state market_data stress_scenarios =
     (case and_then (positions_of st portfolio_state)
             (\<lambda>(p, positions). position_values st (map snd positions)) of
        Inl e \<Rightarrow> (wrap_error ''Error calculating portfolio risk: '' (Inl e), calc)
      | Inr values \<Rightarrow>
          (case ms_correlation market_data of
             Inl e \<Rightarrow> (wrap_error ''Error calculating portfolio risk: '' (Inl e), calc)
           | Inr correlation \<Rightarrow>
               (wrap_error ''Error calculating portfolio risk: ''
                  (portfolio_risk_metrics (calc \<lparr> rc_correlation_matrix := correlation \<rparr>)
                     market_data stress_scenarios values correlation),
                calc \<lparr> rc_correlation_matrix := correlation \<rparr>)))"

subsection \<open>RiskCalculator.validate_trade (241-318)\<close>

record risk_validation =
  vr_position_size :: bool
  vr_concentration :: bool
  vr_correlation :: bool

record risk_detail =
  rd_risk_score :: real
  rd_validation_results :: risk_validation
  rd_pre_trade_risk :: portfolio_risk
  rd_post_trade_risk :: portfolio_risk
  rd_risk_change :: "(string \<times> real) list"

datatype validation_detail = ErrorDetail string | RiskDetail risk_detail

definition RISK_SCORE_THRESHOLD :: real where "RISK_SCORE_THRESHOLD = 8 / 10"

text \<open>\<open>trade_params[k]\<close> and \<open>self.risk_limits[k]\<close>\<close>

definition required :: "string \<Rightarrow> 'a option \<Rightarrow> exn + 'a" where
  "required k v = (case v of None \<Rightarrow> Inl (KeyError k) | Some x \<Rightarrow> Inr x)"

definition risk_limit :: "risk_calculator \<Rightarrow> string \<Rightarrow> exn + real" where
  "risk_limit calc k = required k (map_of (rc_risk_limits calc) k)"

text \<open>The number stored under \<open>'value'\<close> in a position.\<close>

definition value_of :: "pydict \<Rightarrow> exn + real" where
  "value_of d =
     and_then (getitem d ''value'') (\<lambda>v.
       case v of
         Num x \<Rightarrow> Inr x
       | Ref a \<Rightarrow> Inl (TypeError ''unsupported operand type(s)'')
       | Str x \<Rightarrow> Inl (TypeError ''unsupported operand type(s)''))"

text \<open>
  Lines 265-274. \<open>portfolio_state.copy()\<close> makes a new outer dictionary with the
  entries of the old one: its \<open>'positions'\<close> entry refers to the positions
  dictionary of the caller. The branch for a pair already held adds to the
  \<open>'value'\<close> of that position; the other branch stores a new position under the
  pair. The result is the address of the copy and the trade value, or the
  exception raised, together with the store as it is then.
\<close>

definition simulate_trade ::
  "trade_params \<Rightarrow> addr \<Rightarrow> store \<Rightarrow> (exn + (addr \<times> real)) \<times> store" where
  "simulate_trade trade_params portfolio_state st =
     (case deref st (Ref portfolio_state) of
        Inl e \<Rightarrow> (Inl e, st)
      | Inr (a, state) \<Rightarrow>
          (case alloc state st of
             (simulated_portfolio, st1) \<Rightarrow>
          (case and_then (required ''size'' (tp_size trade_params)) (\<lambda>size.
                and_then (required ''price'' (tp_price trade_params)) (\<lambda>price.
                and_then (required ''pair'' (tp_pair trade_params)) (\<lambda>pair.
                and_then (positions_of st1 simulated_portfolio) (\<lambda>(p, positions).
                  Inr (size * price, pair, p, positions))))) of
             Inl e \<Rightarrow> (Inl e, st1)
           | Inr (trade_value, pair, p, positions) \<Rightarrow>
               (case map_of positions pair of
                  Some pos \<Rightarrow>
                    (case and_then (deref st1 pos) (\<lambda>(q, position).
                          and_then (value_of position) (\<lambda>x. Inr (q, x))) of
                       Inl e \<Rightarrow> (Inl e, st1)
                     | Inr (q, x) \<Rightarrow>
                         (Inr (simulated_portfolio, trade_value),
                          setitem q ''value'' (Num (x + trade_value)) st1))
                | None \<Rightarrow>
                    (case alloc [(''value'', Num trade_value)] st1 of
                       (new_position, st2) \<Rightarrow>
                         (Inr (simulated_portfolio, trade_value),
                          setitem p pair (Ref new_position) st2))))))"

text \<open>
  Lines 288-289. \<open>post_trade_risk['correlation_matrix']\<close> is the \<open>tolist()\<close> of a
  two-dimensional array, a list of rows. The generator compares each row, a
  list, with the limit, a float: on the first row Python looks the limit up and
  then raises TypeError. Over no row at all, \<open>all\<close> is true and the limit is not
  looked up.
\<close>

definition correlation_gate :: "risk_calculator \<Rightarrow> real list list \<Rightarrow> exn + bool" where
  "correlation_gate calc correlation_matrix =
     (case correlation_matrix of
        [] \<Rightarrow> Inr True
      | row # rows \<Rightarrow>
          and_then (risk_limit calc ''correlation_limit'') (\<lambda>limit.
            Inl (TypeError ''<= not supported between instances of list and float'')))"

definition validation_results ::
  "risk_calculator \<Rightarrow> real \<Rightarrow> portfolio_risk \<Rightarrow> exn + risk_validation" where
  "validation_results calc trade_value post_trade_risk =
     and_then (risk_limit calc ''max_position_size'') (\<lambda>max_position_size.
     and_then (risk_limit calc ''max_concentration'') (\<lambda>max_concentration.
     and_then (correlation_gate calc (pr_correlation_matrix post_trade_risk)) (\<lambda>correlation.
       Inr \<lparr> vr_position_size = (trade_value \<le> max_position_size),
             vr_concentration = (pr_concentration post_trade_risk \<le> max_concentration),
             vr_correlation = correlation \<rparr>)))"

text \<open>Lines 293-300: \<open>sum(result * risk_weights[metric] ...)\<close>, a boolean counting as 0 or 1.\<close>

definition risk_score :: "risk_validation \<Rightarrow> real" where
  "risk_score results =
     of_bool (vr_position_size results) * (3 / 10)
       + of_bool (vr_concentration results) * (3 / 10)
       + of_bool (vr_correlation results) * (4 / 10)"

text \<open>The \<open>try\<close> block, with the calculator and the store as they are when it ends.\<close>

definition calculator_validate_trade_body ::
  "risk_calculator \<Rightarrow> trade_params \<Rightarrow> addr \<Rightarrow> market_stats
     \<Rightarrow> (string \<times> (string \<times> real) list) list \<Rightarrow> store
     \<Rightarrow> (exn + (bool \<times> risk_detail)) \<times> risk_calculator \<times> store" where
  "calculator_validate_trade_body calc trade_params portfolio_state market_data risk_scenarios st =
     (case calculate_portfolio_risk calc st portfolio_state market_data risk_scenarios of
        (Inl e, calc1) \<Rightarrow> (Inl e, calc1, st)
      | (Inr pre_trade_risk, calc1) \<Rightarrow>
          (case simulate_trade trade_params portfolio_state st of
             (Inl e, st1) \<Rightarrow> (Inl e, calc1, st1)
           | (Inr (simulated_portfolio, trade_value), st1) \<Rightarrow>
               (case calculate_portfolio_risk calc1 st1 simulated_portfolio market_data
                       risk_scenarios of
                  (Inl e, calc2) \<Rightarrow> (Inl e, calc2, st1)
                | (Inr post_trade_risk, calc2) \<Rightarrow>
                    (and_then (validation_results calc2 trade_value post_trade_risk) (\<lambda>results.
                       Inr (RISK_SCORE_THRESHOLD \<le> risk_score results,
                            \<lparr> rd_risk_score = risk_score results,
                              rd_validation_results = results,
                              rd_pre_trade_risk = pre_trade_risk,
                              rd_post_trade_risk = post_trade_risk,
                              rd_risk_change =
                                [(''concentration'',
                                  pr_concentration post_trade_risk
                                    - pr_concentration pre_trade_risk)] \<rparr>)),
                     calc2, st1))))"

text \<open>The \<open>except\<close> clause turns every exception into \<open>(False, {'error': str(e)})\<close>.\<close>

definition calculator_validate_trade ::
  "risk_calculator \<Rightarrow> trade_params \<Rightarrow> addr \<Rightarrow> market_stats
     \<Rightarrow> (string \<times> (string \<times> real) list) list \<Rightarrow> store
     \<Rightarrow> (bool \<times> validation_detail) \<times> risk_calculator \<times> store" where
  "calculator_validate_trade calc trade_params portfolio_state market_data risk_scenarios st =
     (case calculator_validate_trade_body calc trade_params portfolio_state market_data
             risk_scenarios st of
        (Inl e, calc', st') \<Rightarrow> ((False, ErrorDetail (str_exn e)), calc', st')
      | (Inr (approved, detail), calc', st') \<Rightarrow> ((approved, RiskDetail detail), calc', st'))"

text \<open>\<open>portfolio_state['positions'][pair]['value']\<close>, read by the caller.\<close>

definition position_value :: "store \<Rightarrow> addr \<Rightarrow> string \<Rightarrow> exn + real" where
  "position_value st portfolio_state pair =
     and_then (positions_of st portfolio_state) (\<lambda>(p, positions).
     and_then (getitem positions pair) (\<lambda>pos.
     and_then (deref st pos) (\<lambda>(q, position). value_of position)))"

subsection \<open>The approval rule in the words of the specification\<close>

text \<open>
  Section 4.1 of the specification: the trade value is added to the position of
  the pair; the gates are the position size within \<open>max_position_size\<close>, the
  post-trade concentration (the largest position value over the total) within
  \<open>max_concentration\<close>, and all correlations within \<open>correlation_limit\<close>; the
  gates are weighted 0.3, 0.3 and 0.4 into the risk score, and the trade is
  approved iff the score is at least 0.8. The portfolio is a map from pair to
  position value, here an association list.
\<close>

definition spec_post_trade_positions ::
  "(string \<times> real) list \<Rightarrow> string \<Rightarrow> real \<Rightarrow> (string \<times> real) list" where
  "spec_post_trade_positions positions pair trade_value =
     AList.update pair
       ((case map_of positions pair of None \<Rightarrow> 0 | Some v \<Rightarrow> v) + trade_value) positions"

definition spec_concentration :: "(string \<times> real) list \<Rightarrow> real" where
  "spec_concentration positions =
     fold max (map (\<lambda>v. v / sum_list (map snd positions)) (map snd positions)) 0"

definition spec_risk_score ::
  "real \<Rightarrow> real \<Rightarrow> real \<Rightarrow> real \<Rightarrow> (string \<times> real) list \<Rightarrow> real list list \<Rightarrow> real" where
  "spec_risk_score max_position_size max_concentration correlation_limit trade_value
       post_trade_positions correlations =
     (if trade_value \<le> max_position_size then 3 / 10 else 0)
       + (if spec_concentration post_trade_positions \<le> max_concentration then 3 / 10 else 0)
       + (if list_all (list_all (\<lambda>c. c \<le> correlation_limit)) correlations then 4 / 10 else 0)"

text \<open>
  The approval the specification assigns to a trade, for the limits of a
  calculator; \<open>None\<close> where the trade or the limits lack an entry.
\<close>

definition spec_validate_trade ::
  "risk_calculator \<Rightarrow> trade_params \<Rightarrow> (string \<times> real) list \<Rightarrow> real list list \<Rightarrow> bool option" where
  "spec_validate_trade calc trade positions correlations =
     (case (tp_pair trade, tp_size trade, tp_price trade,
            map_of (rc_risk_limits calc) ''max_position_size'',
            map_of (rc_risk_limits calc) ''max_concentration'',
            map_of (rc_risk_limits calc) ''correlation_limit'') of
        (Some pair, Some sz, Some price, Some max_position_size, Some max_concentration,
         Some correlation_limit) \<Rightarrow>
          Some (8 / 10 \<le> spec_risk_score max_position_size max_concentration correlation_limit
                            (sz * price)
                            (spec_post_trade_positions positions pair (sz * price))
                            correlations)
      | _ \<Rightarrow> None)"

text \<open>The portfolio in the store as a map from pair to position value.\<close>

fun named_position_values :: "store \<Rightarrow> pydict \<Rightarrow> exn + (string \<times> real) list" where
  "named_position_values st [] = Inr []"
| "named_position_values st ((pair, pos) # rest) =
     and_then (deref st pos) (\<lambda>(a, d).
     and_then (value_of d) (\<lambda>x.
     and_then (named_position_values st rest) (\<lambda>xs. Inr ((pair, x) # xs))))"

definition portfolio_positions :: "store \<Rightarrow> addr \<Rightarrow> exn + (string \<times> real) list" where
  "portfolio_positions st portfolio_state =
     and_then (positions_of st portfolio_state) (\<lambda>(p, positions).
       named_position_values st positions)"

section \<open>RiskManager (risk/manager.py)\<close>

text \<open>
  The fields of the manager that its methods read or write; the portfolio state
  is an object in the store, shared with whoever else holds a reference.
\<close>

record risk_manager =
  rm_risk_calculator :: risk_calculator
  rm_portfolio_state :: addr
  rm_market_data :: market_stats
  rm_emergency_stop :: bool
  rm_alerts :: "string list"

text \<open>
  The manager calls \<open>_assess_timing_risk\<close>, \<open>_calculate_market_impact\<close>,
  \<open>_cancel_all_orders\<close>, \<open>_secure_portfolio_state\<close>,
  \<open>_send_emergency_notifications\<close> and \<open>_run_system_diagnostics\<close>, none of which
  the repository defines. Each is a parameter: the value it returns or the
  exception it raises (as the class stands, the attribute lookup raises
  AttributeError). What they do to orders, files and alert channels is outside
  the state modelled here. \<open>env_persist_write\<close> tells for each round of
  \<open>_persist_risk_state\<close> whether writing the file raises.
\<close>

record manager_env =
  env_assess_timing_risk :: "trade_params \<Rightarrow> exn + real"
  env_calculate_market_impact :: "trade_params \<Rightarrow> exn + real"
  env_timestamp :: string
  env_cancel_all_orders :: "exn option"
  env_secure_portfolio_state :: "exn option"
  env_persist_write :: "nat \<Rightarrow> exn option"
  env_send_emergency_notifications :: "exn option"
  env_run_system_diagnostics :: "exn option"

record manager_validation =
  mv_is_valid :: bool
  mv_risk_analysis :: validation_detail
  mv_timing_risk :: real
  mv_market_impact :: real
  mv_validation_timestamp :: string

datatype manager_detail = ManagerError string | ManagerValidation manager_validation

subsection \<open>RiskManager.validate_trade (168-210)\<close>

definition manager_validate_trade ::
  "manager_env \<Rightarrow> trade_params \<Rightarrow> risk_manager \<Rightarrow> store
     \<Rightarrow> (bool \<times> manager_detail) \<times> risk_manager \<times> store" where
  "manager_validate_trade env trade_params mgr st =
     (if rm_emergency_stop mgr
      then ((False, ManagerError ''Trading suspended - Emergency stop active''), mgr, st)
      else
        (case calculator_validate_trade (rm_risk_calculator mgr) trade_params
                (rm_portfolio_state mgr) (rm_market_data mgr)
                [(''normal'', [(''shock_factor'', 1)]), (''stress'', [(''shock_factor'', 3 / 2)])]
                st of
           ((is_valid, risk_analysis), calc', st') \<Rightarrow>
             (case and_then (env_assess_timing_risk env trade_params) (\<lambda>timing_risk.
                   and_then (env_calculate_market_impact env trade_params) (\<lambda>market_impact.
                     Inr \<lparr> mv_is_valid = is_valid,
                           mv_risk_analysis = risk_analysis,
                           mv_timing_risk = timing_risk,
                           mv_market_impact = market_impact,
                           mv_validation_timestamp = env_timestamp env \<rparr>)) of
                Inl e \<Rightarrow>
                  ((False, ManagerError (str_exn e)),
                   mgr \<lparr> rm_risk_calculator := calc' \<rparr>, st')
              | Inr validation_result \<Rightarrow>
                  ((is_valid, ManagerValidation validation_result),
                   mgr \<lparr> rm_risk_calculator := calc' \<rparr>, st'))))"

subsection \<open>RiskManager.emergency_shutdown (265-301)\<close>

text \<open>
  \<open>_persist_risk_state\<close> (354-369) is a \<open>while True\<close> loop without \<open>break\<close> or
  \<open>return\<close>: each round sleeps, writes the file, and logs the exception if the
  write raises. The fuel counts the rounds run; \<open>None\<close> says the coroutine has
  not returned when the fuel is used up.
\<close>

fun persist_risk_state :: "nat \<Rightarrow> (nat \<Rightarrow> exn option) \<Rightarrow> nat \<Rightarrow> unit option" where
  "persist_risk_state 0 write k = None"
| "persist_risk_state (Suc fuel) write k =
     (case write k of
        None \<Rightarrow> persist_risk_state fuel write (Suc k)
      | Some e \<Rightarrow> persist_risk_state fuel write (Suc k))"

text \<open>
  The \<open>try\<close> block: the flag is set first. \<open>Some (Inr True)\<close>: the block returns
  True; \<open>Some (Inl e)\<close>: a step raises \<open>e\<close>; \<open>None\<close>: the block is still awaiting
  \<open>_persist_risk_state\<close> when the fuel is used up.
\<close>

definition raises :: "exn option \<Rightarrow> exn + unit" where
  "raises outcome = (case outcome of None \<Rightarrow> Inr () | Some e \<Rightarrow> Inl e)"

definition emergency_shutdown_body ::
  "nat \<Rightarrow> manager_env \<Rightarrow> string \<Rightarrow> risk_manager \<Rightarrow> (exn + bool) option \<times> risk_manager" where
  "emergency_shutdown_body fuel env trigger_event mgr =
     (let mgr1 = mgr \<lparr> rm_emergency_stop := True \<rparr>
      in (case and_then (raises (env_cancel_all_orders env)) (\<lambda>u.
                raises (env_secure_portfolio_state env)) of
            Inl e \<Rightarrow> Some (Inl e)
          | Inr u \<Rightarrow>
              (case persist_risk_state fuel (env_persist_write env) 0 of
                 None \<Rightarrow> None
               | Some u \<Rightarrow>
                   Some (and_then (raises (env_send_emergency_notifications env)) (\<lambda>u.
                         and_then (raises (env_run_system_diagnostics env)) (\<lambda>u.
                           Inr True)))),
          mgr1))"

text \<open>The \<open>except\<close> clause logs the exception and returns False.\<close>

definition emergency_shutdown ::
  "nat \<Rightarrow> manager_env \<Rightarrow> string \<Rightarrow> risk_manager \<Rightarrow> (exn + bool) option \<times> risk_manager" where
  "emergency_shutdown fuel env trigger_event mgr =
     (case emergency_shutdown_body fuel env trigger_event mgr of
        (Some (Inl e), mgr') \<Rightarrow> (Some (Inr False), mgr')
      | (outcome, mgr') \<Rightarrow> (outcome, mgr'))"

section \<open>Concrete inputs used in the evaluations\<close>

definition fixture_book_row :: market_row where
  "fixture_book_row =
     \<lparr> row_dex = ''jupiter'', row_pair = ''SOL/USDC'', row_price = 100,
       row_orderbook = \<lparr> bids = [(99, 1000), (98, 2000)], asks = [(101, 1000), (102, 2000)] \<rparr> \<rparr>"

definition fixture_params :: "real option \<Rightarrow> execution_params" where
  "fixture_params sz =
     \<lparr> ep_pair = ''SOL/USDC'', ep_dex_buy = ''jupiter'', ep_dex_sell = ''pump_fun'', ep_size = sz \<rparr>"


definition fixture_store :: store where
  "fixture_store =
     [(0, [(''positions'', Ref 1)]),
      (1, [(''SOL/USDC'', Ref 2), (''ORCA/USDC'', Ref 3)]),
      (2, [(''value'', Num 100), (''size'', Num 1)]),
      (3, [(''value'', Num 300), (''size'', Num 3)])]"

definition fixture_diversified_store :: store where
  "fixture_diversified_store =
     [(0, [(''positions'', Ref 1)]),
      (1, [(''SOL/USDC'', Ref 2), (''ORCA/USDC'', Ref 3), (''RAY/USDC'', Ref 4),
           (''JUP/USDC'', Ref 5)]),
      (2, [(''value'', Num 100)]),
      (3, [(''value'', Num 100)]),
      (4, [(''value'', Num 100)]),
      (5, [(''value'', Num 100)])]"

text \<open>A frame of 40 rows of returns of two instruments.\<close>

definition fixture_returns :: "real \<Rightarrow> returns_frame" where
  "fixture_returns shock_factor =
     \<lparr> rf_length = 40,
       rf_std = [shock_factor * (2 / 100), shock_factor * (3 / 100)],
       rf_rolling_std_mean = [shock_factor * (2 / 100), shock_factor * (3 / 100)],
       rf_var = (\<lambda>var_type vol_adjustment timeframe. - (3 / 100) * shock_factor) \<rparr>"

definition fixture_market :: "real list list \<Rightarrow> market_stats" where
  "fixture_market correlation =
     \<lparr> ms_correlation = Inr correlation,
       ms_returns = fixture_returns 1,
       ms_shocked_returns = fixture_returns,
       ms_sharpe_ratio = [1, 1],
       ms_max_drawdown = [1 / 10, 1 / 10] \<rparr>"

definition fixture_correlation :: "real list list" where
  "fixture_correlation = [[1, 1 / 5], [1 / 5, 1]]"

definition fixture_calculator :: "real \<Rightarrow> risk_calculator" where
  "fixture_calculator correlation_limit =
     \<lparr> rc_lookback_period = 30,
       rc_risk_limits = [(''max_position_size'', 5000), (''min_position_size'', 100),
                          (''max_concentration'', 1 / 4), (''correlation_limit'', correlation_limit)],
       rc_correlation_matrix = [] \<rparr>"

definition fixture_trade :: "string \<Rightarrow> real \<Rightarrow> real \<Rightarrow> trade_params" where
  "fixture_trade pair sz price =
     \<lparr> tp_pair = Some pair, tp_size = Some sz, tp_price = Some price, tp_dex = None \<rparr>"

definition fixture_scenarios :: "(string \<times> (string \<times> real) list) list" where
  "fixture_scenarios = [(''base_scenario'', [(''shock_factor'', 1)])]"

definition fixture_manager :: "bool \<Rightarrow> risk_manager" where
  "fixture_manager stopped =
     \<lparr> rm_risk_calculator = fixture_calculator (7 / 10),
       rm_portfolio_state = 0,
       rm_market_data = fixture_market fixture_correlation,
       rm_emergency_stop = stopped,
       rm_alerts = [] \<rparr>"

definition fixture_manager_env :: manager_env where
  "fixture_manager_env =
     \<lparr> env_assess_timing_risk =
         (\<lambda>trade. Inl (AttributeError ''RiskManager object has no attribute _assess_timing_risk'')),
       env_calculate_market_impact =
         (\<lambda>trade. Inl (AttributeError ''RiskManager object has no attribute _calculate_market_impact'')),
       env_timestamp = ''2024-01-01T00:00:00'',
       env_cancel_all_orders =
         Some (AttributeError ''RiskManager object has no attribute _cancel_all_orders''),
       env_secure_portfolio_state =
         Some (AttributeError ''RiskManager object has no attribute _secure_portfolio_state''),
       env_persist_write = (\<lambda>k. None),
       env_send_emergency_notifications =
         Some (AttributeError ''RiskManager object has no attribute _send_emergency_notifications''),
       env_run_system_diagnostics =
         Some (AttributeError ''RiskManager object has no attribute _run_system_diagnostics'') \<rparr>"

definition fixture_opportunity :: execution_params where
  "fixture_opportunity =
     \<lparr> ep_pair = ''SOL/USDC'', ep_dex_buy = ''jupiter'', ep_dex_sell = ''pump_fun'',
       ep_size = None \<rparr>"

definition fixture_stats :: execution_stats where
  "fixture_stats =
     \<lparr> total_executions = 0, successful_executions = 0, failed_executions = 0,
       average_execution_time = 0, total_profit_usdc = 0, mev_optimization_savings = 0 \<rparr>"

definition fixture_executor_env :: "bool \<Rightarrow> executor_env" where
  "fixture_executor_env valid =
     \<lparr> env_validate_execution = (\<lambda>opportunity. valid),
       env_calculate_execution_path =
         (\<lambda>opportunity.
            [\<lparr> step_dex = ''jupiter'', step_size = 1000, step_price = 101, step_type = Buy \<rparr>,
             \<lparr> step_dex = ''pump_fun'', step_size = 1000, step_price = 102, step_type = Sell \<rparr>]),
       env_base_validate_trade = (\<lambda>trade. True),
       env_submit =
         (\<lambda>bundle attempt.
            Completed (map (\<lambda>trade. \<lparr> tr_success = True, tr_realized_profit = 0,
                                       tr_mev_savings = 0 \<rparr>) bundle)),
       env_execution_time = 12 \<rparr>"

section \<open>Theorems\<close>

subsection \<open>C8 and C9\<close>

lemma rint_scenario: "rint (2000000 / 401 :: real) = 4988"
proof -
  have f: "\<lfloor>2000000 / 401 :: real\<rfloor> = 4987"
    by (simp add: floor_eq_iff)
  show ?thesis
    unfolding rint_def Let_def f by simp
qed

lemma price_difference_scenario:
  "calculate_price_difference 100 (201 / 2) = Inr (1247 / 25)"
proof -
  have "(\<bar>201 / 2 - 100\<bar> / ((100 + 201 / 2) / 2)) * 10000 * 10 ^ 2 = (2000000 / 401 :: real)"
    by simp
  then have "np_round ((\<bar>201 / 2 - 100\<bar> / ((100 + 201 / 2) / 2)) * 10000) 2 = (4988 / 100 :: real)"
    unfolding np_round_def using rint_scenario by simp
  then show ?thesis
    unfolding calculate_price_difference_def Let_def by simp
qed

text \<open>
  C8, as the code computes it: for prices 100 and 100.5 the function returns
  49.88 basis points, which is 0.5 / 100.25 * 10000 = 49.8753... rounded to two
  decimals.
\<close>

theorem C8_price_difference_100_100_5:
  "calculate_price_difference 100 (201 / 2) = Inr (4988 / 100)"
  using price_difference_scenario by simp

text \<open>
  C8, as the specification words it: the value returned for 100 and 100.5 is
  not within 0.1 of 49.75 basis points.
\<close>

theorem C8_not_49_75:
  "\<not> within_tolerance (calculate_price_difference 100 (201 / 2)) (4975 / 100) (1 / 10)"
  using price_difference_scenario by simp

text \<open>
  C9: for strictly positive prices the function returns a value, and the value
  is the same when the two prices are swapped.
\<close>

theorem C9_price_difference_symmetric:
  assumes "0 < price_a" and "0 < price_b"
  shows "\<exists>d. calculate_price_difference price_a price_b = Inr d
           \<and> calculate_price_difference price_b price_a = Inr d"
  using assms
  by (simp add: calculate_price_difference_def Let_def add.commute abs_minus_commute)

text \<open>C9 at the prices 100 and 100.5.\<close>

theorem C9_price_difference_symmetric_witness:
  "(0::real) < 100 \<and> (0::real) < 201 / 2
   \<and> (\<exists>d. calculate_price_difference 100 (201 / 2) = Inr d
          \<and> calculate_price_difference (201 / 2) 100 = Inr d)"
  using C9_price_difference_symmetric [of 100 "201 / 2"] by simp

subsection \<open>C7\<close>

text \<open>
  C7, as the specification words it, fails: with a matching market row and a
  trade size of -1 the function does not return +infinity (it returns 0.0).
\<close>

theorem C7_nonpositive_size_not_infinite:
  "calculate_slippage [fixture_book_row] (fixture_params (Some (- 1))) \<noteq> PosInf"
  by (simp add: calculate_slippage_def select_rows_def fixture_book_row_def fixture_params_def)

text \<open>
  C7, as the code decides it: with no matching market row the result is
  +infinity whatever the size; with a matching row and a size that is absent,
  zero or negative the result is 0.0; with a matching row, a positive size and
  an empty ask side the result is +infinity.
\<close>

theorem C7_slippage_guards:
  "(select_rows market_data (ep_dex_buy params) (ep_pair params) = []
      \<longrightarrow> calculate_slippage market_data params = PosInf)
   \<and> (select_rows market_data (ep_dex_buy params) (ep_pair params) \<noteq> []
        \<and> (ep_size params = None \<or> (\<exists>s. ep_size params = Some s \<and> s \<le> 0))
      \<longrightarrow> calculate_slippage market_data params = Fin 0)
   \<and> (select_rows market_data (ep_dex_buy params) (ep_pair params) \<noteq> []
        \<and> (\<exists>s. ep_size params = Some s \<and> 0 < s)
        \<and> asks (row_orderbook (hd (select_rows market_data (ep_dex_buy params) (ep_pair params)))) = []
      \<longrightarrow> calculate_slippage market_data params = PosInf)"
  by (auto simp: calculate_slippage_def slippage_bps_def Let_def split: list.splits option.splits)

text \<open>The three cases of C7 at concrete inputs.\<close>

theorem C7_slippage_guards_witness:
  "calculate_slippage [] (fixture_params (Some 500)) = PosInf
   \<and> calculate_slippage [fixture_book_row] (fixture_params None) = Fin 0
   \<and> calculate_slippage [fixture_book_row] (fixture_params (Some (- 1))) = Fin 0
   \<and> calculate_slippage [fixture_book_row \<lparr> row_orderbook := \<lparr> bids = [], asks = [] \<rparr> \<rparr>]
        (fixture_params (Some 500)) = PosInf"
  using C7_slippage_guards [of "[]" "fixture_params (Some 500)"]
        C7_slippage_guards [of "[fixture_book_row]" "fixture_params None"]
        C7_slippage_guards [of "[fixture_book_row]" "fixture_params (Some (- 1))"]
        C7_slippage_guards [of "[fixture_book_row \<lparr> row_orderbook := \<lparr> bids = [], asks = [] \<rparr> \<rparr>]"
                               "fixture_params (Some 500)"]
  by (simp add: select_rows_def fixture_book_row_def fixture_params_def)

text \<open>
  The price the code calls the weighted average sums price times
  min(size, cumulative volume) over all levels. For 500 units against asks of
  1000 at 101 and 2000 at 102 this gives 203 and a slippage of 10099 basis
  points; for 1000000 units it gives a negative slippage.
\<close>

lemma slippage_small_trade:
  "calculate_slippage [fixture_book_row] (fixture_params (Some 500)) = Fin (1020000 / 101)"
  by (simp add: calculate_slippage_def slippage_bps_def select_rows_def fixture_book_row_def
      fixture_params_def np_cumsum_def np_div_def Let_def)

lemma slippage_large_trade:
  "calculate_slippage [fixture_book_row] (fixture_params (Some 1000000)) = Fin (- (1005930 / 101))"
  by (simp add: calculate_slippage_def slippage_bps_def select_rows_def fixture_book_row_def
      fixture_params_def np_cumsum_def np_div_def Let_def)

text \<open>
  For 500 units the trade stays inside the first level: the volume-weighted
  price is the best ask, 101, a slippage of zero, where the code returns
  10099 basis points.
\<close>

lemma slippage_is_not_volume_weighted:
  "spec_execution_price (asks (row_orderbook fixture_book_row)) 500 = 101
   \<and> calculate_slippage [fixture_book_row] (fixture_params (Some 500)) = Fin (1020000 / 101)"
  by (simp add: spec_execution_price_def calculate_slippage_def slippage_bps_def select_rows_def
      fixture_book_row_def fixture_params_def np_cumsum_def np_div_def Let_def)

subsection \<open>C6\<close>




text \<open>An odd \<open>grid_levels\<close> of 3 gives four levels: two below the price, the price, one above.\<close>

lemma three_grid_levels_build_four_levels:
  "map gl_price (initialize_grid_levels
     \<lparr> gp_grid_levels = 3, gp_grid_spacing = 1 / 100, gp_position_size = 5 \<rparr> 100)
     = [98, 99, 100, 101]"
  by (simp add: initialize_grid_levels_def py_range_def Let_def upto_rec1)

subsection \<open>C1 and C2: RiskCalculator.validate_trade\<close>

text \<open>
  \<open>calculate_value_at_risk\<close> raises ValueError on every frame: either the frame is
  too short, or line 91 asks for the truth value of a Series.
\<close>

lemma calculate_value_at_risk_raises:
  "\<exists>message. calculate_value_at_risk calc returns var_type = Inl (ValueError message)"
  by (simp add: calculate_value_at_risk_def wrap_error_def series_truth_value_def and_then_def
      Let_def)

lemma portfolio_risk_metrics_raises:
  "\<exists>e. portfolio_risk_metrics calc market_data scenarios values correlation = Inl e"
proof -
  obtain message where
    "calculate_value_at_risk calc (ms_returns market_data) ''historical'' = Inl (ValueError message)"
    using calculate_value_at_risk_raises by blast
  then show ?thesis
    by (simp add: portfolio_risk_metrics_def and_then_def split: sum.splits)
qed

text \<open>So \<open>calculate_portfolio_risk\<close> raises ValueError for every portfolio and every frame.\<close>

lemma calculate_portfolio_risk_raises:
  "\<exists>message. fst (calculate_portfolio_risk calc st portfolio_state market_data scenarios)
                = Inl (ValueError message)"
proof (cases "and_then (positions_of st portfolio_state)
               (\<lambda>(p, positions). position_values st (map snd positions))")
  case (Inl e)
  then show ?thesis
    by (simp add: calculate_portfolio_risk_def wrap_error_def)
next
  case vals: (Inr position_vals)
  show ?thesis
  proof (cases "ms_correlation market_data")
    case (Inl e)
    with vals show ?thesis
      by (simp add: calculate_portfolio_risk_def wrap_error_def)
  next
    case (Inr correlation)
    obtain e where
      "portfolio_risk_metrics (calc \<lparr> rc_correlation_matrix := correlation \<rparr>) market_data
         scenarios position_vals correlation = Inl e"
      using portfolio_risk_metrics_raises by blast
    with vals Inr show ?thesis
      by (simp add: calculate_portfolio_risk_def wrap_error_def)
  qed
qed

text \<open>
  \<open>validate_trade\<close> therefore leaves the \<open>try\<close> block at line 259, in the
  calculation on the pre-trade portfolio: it returns False with an error
  message, and the copy and the update of lines 266-274 are not executed.
\<close>

lemma validate_trade_rejects_at_pre_trade_risk:
  "\<exists>message calc'.
     calculator_validate_trade calc trade portfolio_state market_data scenarios st
       = ((False, ErrorDetail message), calc', st)"
proof -
  obtain message calc1 where
    "calculate_portfolio_risk calc st portfolio_state market_data scenarios
       = (Inl (ValueError message), calc1)"
    using calculate_portfolio_risk_raises [of calc st portfolio_state market_data scenarios]
    by (metis prod.collapse)
  then show ?thesis
    by (simp add: calculator_validate_trade_def calculator_validate_trade_body_def)
qed

text \<open>
  C1: for every trade, portfolio, market data and scenarios, the store of
  objects after \<open>RiskCalculator.validate_trade\<close> is the store before it; in
  particular every position of the caller's portfolio has the value it had.
\<close>

theorem C1_validate_trade_leaves_portfolio_unchanged:
  "snd (snd (calculator_validate_trade calc trade portfolio_state market_data scenarios st)) = st
   \<and> (\<forall>pair.
        position_value
          (snd (snd (calculator_validate_trade calc trade portfolio_state market_data scenarios st)))
          portfolio_state pair
        = position_value st portfolio_state pair)"
  using validate_trade_rejects_at_pre_trade_risk
          [of calc trade portfolio_state market_data scenarios st]
  by auto

text \<open>
  The reason is the early return, not the copy. Lines 266-274 on their own:
  \<open>portfolio_state.copy()\<close> copies the outer dictionary only, so the update of
  the simulated portfolio would add the trade value to the caller's position
  (100 becomes 110).
\<close>

lemma simulate_trade_shares_positions:
  "position_value fixture_store 0 ''SOL/USDC'' = Inr 100
   \<and> position_value (snd (simulate_trade (fixture_trade ''SOL/USDC'' 1 10) 0 fixture_store))
        0 ''SOL/USDC'' = Inr 110"
  by (simp add: position_value_def positions_of_def deref_def getitem_def and_then_def value_of_def
      fixture_store_def fixture_trade_def simulate_trade_def alloc_def fresh_addr_def setitem_def
      required_def)

text \<open>
  C2 at a concrete input. The portfolio holds four positions of 100; the trade
  is 1 unit at price 100 in a fifth pair; the limits are 5000 for the position
  size, 0.25 for the concentration and 1 for the correlations; the returns of
  the two instruments correlate with 0.2. All three gates of the specification
  hold, its risk score is 1 and it approves the trade.
  \<open>RiskCalculator.validate_trade\<close> returns False with an error message.
\<close>

theorem C2_passing_trade_is_not_approved:
  "portfolio_positions fixture_diversified_store 0
     = Inr [(''SOL/USDC'', 100), (''ORCA/USDC'', 100), (''RAY/USDC'', 100), (''JUP/USDC'', 100)]
   \<and> spec_validate_trade (fixture_calculator 1) (fixture_trade ''BONK/USDC'' 1 100)
        [(''SOL/USDC'', 100), (''ORCA/USDC'', 100), (''RAY/USDC'', 100), (''JUP/USDC'', 100)]
        fixture_correlation
     = Some True
   \<and> fst (calculator_validate_trade (fixture_calculator 1) (fixture_trade ''BONK/USDC'' 1 100) 0
            (fixture_market fixture_correlation) fixture_scenarios fixture_diversified_store)
     = (False,
        ErrorDetail (''Error calculating portfolio risk: '' @ ''Error calculating VaR: ''
          @ ''The truth value of a Series is ambiguous. Use a.empty, a.bool(), a.item(), a.any() or a.all().''))"
  by (simp add: portfolio_positions_def positions_of_def deref_def getitem_def and_then_def
      value_of_def fixture_diversified_store_def fixture_trade_def fixture_market_def
      fixture_returns_def fixture_scenarios_def fixture_calculator_def fixture_correlation_def
      spec_validate_trade_def spec_risk_score_def spec_concentration_def
      spec_post_trade_positions_def
      calculator_validate_trade_def calculator_validate_trade_body_def
      calculate_portfolio_risk_def portfolio_risk_metrics_def concentration_of_def wrap_error_def
      calculate_value_at_risk_def series_truth_value_def)

text \<open>No trade is ever approved: the first component of the result is False for every input.\<close>

lemma validate_trade_never_approves:
  "fst (fst (calculator_validate_trade calc trade portfolio_state market_data scenarios st)) = False"
  using validate_trade_rejects_at_pre_trade_risk
          [of calc trade portfolio_state market_data scenarios st]
  by auto

subsection \<open>C3\<close>

lemma emergency_message_mentions_stop:
  "sublist ''Emergency stop'' ''Trading suspended - Emergency stop active''"
proof -
  have "''Trading suspended - Emergency stop active''
          = ''Trading suspended - '' @ ''Emergency stop'' @ '' active''"
    by simp
  then show ?thesis
    unfolding sublist_def by blast
qed

text \<open>
  C3: with \<open>emergency_stop\<close> set, \<open>RiskManager.validate_trade\<close> returns False with
  an error message that contains "Emergency stop", for every trade, and
  returns the manager (its calculator included) and the store of objects as
  they were: the calculator is not called and nothing is mutated.
\<close>

theorem C3_emergency_stop_rejects:
  assumes "rm_emergency_stop mgr"
  shows "\<exists>message. manager_validate_trade env trade_params mgr st
                      = ((False, ManagerError message), mgr, st)
                  \<and> sublist ''Emergency stop'' message"
  using assms emergency_message_mentions_stop
  by (simp add: manager_validate_trade_def)

text \<open>C3 at a manager whose flag is set.\<close>

theorem C3_emergency_stop_rejects_witness:
  "rm_emergency_stop (fixture_manager True)
   \<and> (\<exists>message. manager_validate_trade fixture_manager_env (fixture_trade ''SOL/USDC'' 1 10)
                    (fixture_manager True) fixture_store
                  = ((False, ManagerError message), fixture_manager True, fixture_store)
               \<and> sublist ''Emergency stop'' message)"
  using C3_emergency_stop_rejects [of "fixture_manager True" fixture_manager_env
          "fixture_trade ''SOL/USDC'' 1 10" fixture_store]
  by (simp add: fixture_manager_def)

text \<open>
  For comparison, the same call with the flag not set delegates to the
  calculator, which replaces its stored correlation matrix.
\<close>

lemma manager_validate_trade_delegates_when_not_stopped:
  "rc_correlation_matrix (rm_risk_calculator (fixture_manager False)) = []
   \<and> rc_correlation_matrix (rm_risk_calculator
        (fst (snd (manager_validate_trade fixture_manager_env (fixture_trade ''SOL/USDC'' 1 10)
                     (fixture_manager False) fixture_store)))) = fixture_correlation"
  by (simp add: manager_validate_trade_def fixture_manager_def fixture_manager_env_def
      positions_of_def deref_def getitem_def and_then_def
      fixture_store_def fixture_trade_def fixture_market_def fixture_returns_def
      fixture_calculator_def calculator_validate_trade_def calculator_validate_trade_body_def
      calculate_portfolio_risk_def portfolio_risk_metrics_def concentration_of_def wrap_error_def
      calculate_value_at_risk_def series_truth_value_def)

subsection \<open>C4\<close>

text \<open>
  \<open>_persist_risk_state\<close> does not return, however many rounds it runs; so
  \<open>emergency_shutdown\<close> returns False or is still waiting, and never returns True.
\<close>

lemma persist_risk_state_never_returns: "persist_risk_state fuel write k = None"
  by (induction fuel arbitrary: k) (simp_all split: option.splits)

lemma emergency_shutdown_state:
  "snd (emergency_shutdown fuel env trigger mgr) = mgr \<lparr> rm_emergency_stop := True \<rparr>"
  by (simp add: emergency_shutdown_def emergency_shutdown_body_def Let_def
      split: option.splits sum.splits)

lemma emergency_shutdown_outcome:
  "fst (emergency_shutdown fuel env trigger mgr) = None
   \<or> fst (emergency_shutdown fuel env trigger mgr) = Some (Inr False)"
  by (simp add: emergency_shutdown_def emergency_shutdown_body_def Let_def
      persist_risk_state_never_returns split: option.splits sum.splits)

text \<open>
  C4: after one call of \<open>emergency_shutdown\<close> and after a second call on the
  resulting manager, with any triggers and any behaviour of the helpers, the
  flag is set, the second call changes nothing, and neither call raises. If the
  flag was set before a call that returns False, it is still set afterwards
  and the manager is unchanged.
\<close>

theorem C4_emergency_shutdown_idempotent_fail_safe:
  assumes "emergency_shutdown fuel1 env1 trigger1 mgr = (r1, mgr1)"
    and "emergency_shutdown fuel2 env2 trigger2 mgr1 = (r2, mgr2)"
  shows "rm_emergency_stop mgr1 \<and> rm_emergency_stop mgr2 \<and> mgr2 = mgr1
       \<and> (\<forall>e. r1 \<noteq> Some (Inl e)) \<and> (\<forall>e. r2 \<noteq> Some (Inl e))
       \<and> (rm_emergency_stop mgr \<and> r1 = Some (Inr False) \<longrightarrow> rm_emergency_stop mgr1 \<and> mgr1 = mgr)"
proof -
  have s1: "mgr1 = mgr \<lparr> rm_emergency_stop := True \<rparr>"
    using emergency_shutdown_state [of fuel1 env1 trigger1 mgr] assms(1) by simp
  have s2: "mgr2 = mgr1 \<lparr> rm_emergency_stop := True \<rparr>"
    using emergency_shutdown_state [of fuel2 env2 trigger2 mgr1] assms(2) by simp
  have o1: "r1 = None \<or> r1 = Some (Inr False)"
    using emergency_shutdown_outcome [of fuel1 env1 trigger1 mgr] assms(1) by simp
  have o2: "r2 = None \<or> r2 = Some (Inr False)"
    using emergency_shutdown_outcome [of fuel2 env2 trigger2 mgr1] assms(2) by simp
  show ?thesis
    using s1 s2 o1 o2 by auto
qed

text \<open>
  C4 at a manager whose flag is set and helpers that raise AttributeError, as
  the class stands: the call returns False and the flag stays set.
\<close>

theorem C4_emergency_shutdown_idempotent_fail_safe_witness:
  "emergency_shutdown 5 fixture_manager_env ''risk_breach'' (fixture_manager True)
     = (Some (Inr False), fixture_manager True)
   \<and> rm_emergency_stop (fixture_manager True)"
proof -
  have run: "emergency_shutdown 5 fixture_manager_env ''risk_breach'' (fixture_manager True)
               = (Some (Inr False), fixture_manager True)"
    by (simp add: emergency_shutdown_def emergency_shutdown_body_def fixture_manager_env_def
        fixture_manager_def raises_def and_then_def)
  from C4_emergency_shutdown_idempotent_fail_safe [OF run run] run
  show ?thesis by simp
qed

subsection \<open>C5\<close>

lemma update_execution_stats_once:
  "updated_exactly_once stats (update_execution_stats result execution_time stats)"
  by (simp add: updated_exactly_once_def update_execution_stats_def Let_def)

text \<open>
  The statistics are updated exactly once when the call reaches the retry loop,
  whatever the attempts do, and not at all when it returns before.
\<close>

lemma execute_opportunity_counts_submitted_calls_once:
  assumes "env_validate_execution env opportunity"
    and "env_calculate_execution_path env opportunity \<noteq> []"
    and "prepare_bundle (env_base_validate_trade env) (ep_pair opportunity)
           (env_calculate_execution_path env opportunity) \<noteq> None"
  shows "updated_exactly_once stats (snd (execute_opportunity env opportunity stats))"
  using assms
  by (auto simp: execute_opportunity_def Let_def update_execution_stats_once
      split: list.splits option.splits)

lemma execute_opportunity_early_return_keeps_stats:
  assumes "\<not> env_validate_execution env opportunity
         \<or> env_calculate_execution_path env opportunity = []
         \<or> prepare_bundle (env_base_validate_trade env) (ep_pair opportunity)
              (env_calculate_execution_path env opportunity) = None"
  shows "snd (execute_opportunity env opportunity stats) = stats"
  using assms
  by (auto simp: execute_opportunity_def Let_def split: list.splits option.splits)

text \<open>
  C5 at a concrete input: \<open>validate_execution\<close> rejects the opportunity;
  \<open>execute_opportunity\<close> returns the failure result and the statistics are the
  ones from before the call, so they were not updated exactly once.
\<close>

theorem C5_validation_failure_not_counted:
  "execute_opportunity (fixture_executor_env False) fixture_opportunity fixture_stats
     = (initial_execution_result \<lparr> er_errors := [ValidationFailed] \<rparr>, fixture_stats)
   \<and> \<not> updated_exactly_once fixture_stats
         (snd (execute_opportunity (fixture_executor_env False) fixture_opportunity fixture_stats))"
  by (simp add: execute_opportunity_def fixture_executor_env_def updated_exactly_once_def Let_def)

lemma execute_opportunity_success_counted:
  "snd (execute_opportunity (fixture_executor_env True) fixture_opportunity fixture_stats)
     = fixture_stats \<lparr> total_executions := 1, successful_executions := 1,
                       average_execution_time := 12 \<rparr>"
  by (simp add: execute_opportunity_def fixture_executor_env_def fixture_opportunity_def
      fixture_stats_def update_execution_stats_def initial_execution_result_def
      MAX_EXECUTION_ATTEMPTS_def Let_def upt_rec)


end
